theory Spec2Isabelle
  imports Main
begin

section \<open>JavaScript values and thrown errors\<close>

text \<open>
  A thrown value is either an \<open>Error\<close> object (with its message) or some other value
  (\<open>error instanceof Error\<close> is false for it).
\<close>

datatype js_error = Error string | NonError string

section \<open>RateLimiter (src/utils/RateLimiter.ts)\<close>

text \<open>
  The private fields of the class. Timestamps are the integer milliseconds of
  \<open>Date.now()\<close>.
\<close>

record RateLimiter =
  requests :: int
  limit :: int
  interval :: int
  lastRequestTime :: int

text \<open>The constructor; \<open>now\<close> is the value of \<open>Date.now()\<close> it reads.\<close>

definition new_RateLimiter :: "int \<Rightarrow> int \<Rightarrow> int \<Rightarrow> js_error + RateLimiter" where
  "new_RateLimiter lim ival now =
     (if lim \<le> 0 then Inl (Error ''Rate limit must be greater than 0'')
      else if ival \<le> 0 then Inl (Error ''Rate limit interval must be greater than 0'')
      else Inr \<lparr>requests = 0, limit = lim, interval = ival, lastRequestTime = now\<rparr>)"

text \<open>
  \<open>acquire()\<close>. The clock is read twice: \<open>now\<close> on entry and \<open>later\<close> after the
  timer of the waiting branch has fired. The result is the delay passed to
  \<open>setTimeout\<close> (\<open>None\<close> when the call resolves without a timer) and the new state.
\<close>

definition acquire :: "int \<Rightarrow> int \<Rightarrow> RateLimiter \<Rightarrow> int option \<times> RateLimiter" where
  "acquire now later rl =
     (let timeSinceLastRequest = now - lastRequestTime rl;
          rl1 = (if timeSinceLastRequest \<ge> interval rl
                 then rl\<lparr>requests := 0, lastRequestTime := now\<rparr>
                 else rl)
      in if requests rl1 < limit rl1 then
           (let rl2 = rl1\<lparr>requests := requests rl1 + 1\<rparr>;
                rl3 = (if requests rl2 = 1 then rl2\<lparr>lastRequestTime := now\<rparr> else rl2)
            in (None, rl3))
         else
           (let waitTime = interval rl1 - timeSinceLastRequest
            in (Some waitTime, rl1\<lparr>requests := 1, lastRequestTime := later\<rparr>)))"

definition getStatus :: "RateLimiter \<Rightarrow> int \<times> int \<times> int" where
  "getStatus rl = (requests rl, limit rl, interval rl)"

section \<open>JavaScript strings\<close>

text \<open>
  Strings are lists of code units. \<open>startsWith\<close>, \<open>includes\<close>, \<open>trim\<close>,
  \<open>split\<close>, \<open>join\<close> and \<open>replace\<close> follow \<open>String.prototype\<close>;
  \<open>replace\<close> with a string pattern rewrites the first occurrence only.
\<close>

definition startsWith :: "string \<Rightarrow> string \<Rightarrow> bool" where
  "startsWith s p = (take (length p) s = p)"

fun includes_str :: "string \<Rightarrow> string \<Rightarrow> bool" where
  "includes_str [] p = (p = [])"
| "includes_str (c # s) p = (startsWith (c # s) p \<or> includes_str s p)"

fun replace :: "string \<Rightarrow> string \<Rightarrow> string \<Rightarrow> string" where
  "replace [] p r = (if p = [] then r else [])"
| "replace (c # s) p r =
     (if startsWith (c # s) p then r @ drop (length p) (c # s) else c # replace s p r)"

text \<open>
  White space and line terminators, as far as they are single code units below 256:
  tab, line feed, vertical tab, form feed, carriage return, space, no-break space.
\<close>

definition isWhiteSpace :: "char \<Rightarrow> bool" where
  "isWhiteSpace c = (c \<in> set [CHR 0x09, CHR 0x0A, CHR 0x0B, CHR 0x0C, CHR 0x0D, CHR 0x20, CHR 0xA0])"

definition trim :: "string \<Rightarrow> string" where
  "trim s = rev (dropWhile isWhiteSpace (rev (dropWhile isWhiteSpace s)))"

abbreviation LF :: char where
  "LF \<equiv> CHR 0x0A"

text \<open>\<open>s.split("\n")\<close>: the empty string splits into one empty line.\<close>

fun split_LF :: "string \<Rightarrow> string list" where
  "split_LF [] = [[]]"
| "split_LF (c # cs) =
     (if c = LF then [] # split_LF cs
      else (case split_LF cs of [] \<Rightarrow> [[c]] | l # ls \<Rightarrow> (c # l) # ls))"

fun join :: "string \<Rightarrow> string list \<Rightarrow> string" where
  "join sep [] = []"
| "join sep [x] = x"
| "join sep (x # y # ys) = x @ sep @ join sep (y # ys)"

text \<open>
  \<open>s.replace(/\n{3,}/g, "\n\n")\<close>: a scan that counts the line feeds of the current
  run; a maximal run of three or more is written back as two, a shorter one unchanged.
\<close>

definition emit_run :: "nat \<Rightarrow> string" where
  "emit_run n = replicate (if 3 \<le> n then 2 else n) LF"

fun collapse_from :: "nat \<Rightarrow> string \<Rightarrow> string" where
  "collapse_from n [] = emit_run n"
| "collapse_from n (c # cs) =
     (if c = LF then collapse_from (Suc n) cs else emit_run n @ c # collapse_from 0 cs)"

definition collapse_newlines :: "string \<Rightarrow> string" where
  "collapse_newlines s = collapse_from 0 s"

text \<open>\<open>a || b\<close> on values that are a string or \<open>undefined\<close>: the empty string is falsy.\<close>

definition truthy :: "string option \<Rightarrow> bool" where
  "truthy v = (case v of None \<Rightarrow> False | Some s \<Rightarrow> s \<noteq> [])"

definition js_or :: "string option \<Rightarrow> string option \<Rightarrow> string option" where
  "js_or a b = (if truthy a then a else b)"

section \<open>Shared types (src/types/index.ts)\<close>

text \<open>
  An optional field is an \<open>option\<close>. The optional \<open>selectors\<close> object of the scraper
  options is flattened into its two optional fields.
\<close>

record ScraperOptions =
  includeMetadata :: "bool option"
  includeLinks :: "bool option"
  cleanWhitespace :: "bool option"
  selectors_remove :: "string list option"
  selectors_focus :: "string option"

record Metadata =
  title :: "string option"
  description :: "string option"
  url :: "string option"
  author :: "string option"
  publishDate :: "string option"

record WebContent =
  content :: string
  metadata :: "Metadata option"

record FetchResult =
  success :: bool
  data :: "WebContent option"
  error :: "string option"

record SearchResult =
  title :: string
  url :: string
  snippet :: string
  icon :: "string option"

section \<open>Content extractor (src/fetcher/fetchAndScrape.ts)\<close>

text \<open>
  The HTML parser (cheerio) and the Markdown converter (turndown) are libraries outside
  the repository; the scraper takes them as parameters. \<open>'d\<close> is a parsed document and
  \<open>'s\<close> a selection of its elements:
  \<open>load\<close> parses, \<open>remove sel d\<close> is \<open>$(sel).remove()\<close>, \<open>select d sel\<close> is \<open>$(sel)\<close>,
  \<open>sel_length\<close>, \<open>sel_text\<close>, \<open>sel_attr\<close> and \<open>sel_html\<close> are \<open>.length\<close>,
  \<open>.text()\<close>, \<open>.attr(name)\<close> and \<open>.html()\<close>, and \<open>replaceLinks\<close> is the selection after
  each anchor below it has been replaced by its text.
\<close>

record ('d, 's) cheerio =
  load :: "string \<Rightarrow> 'd"
  remove :: "string \<Rightarrow> 'd \<Rightarrow> 'd"
  select :: "'d \<Rightarrow> string \<Rightarrow> 's"
  sel_length :: "'s \<Rightarrow> nat"
  sel_text :: "'s \<Rightarrow> string"
  sel_attr :: "'s \<Rightarrow> string \<Rightarrow> string option"
  sel_html :: "'s \<Rightarrow> string option"
  replaceLinks :: "'s \<Rightarrow> 's"

text \<open>The selectors that contain double quotes, as named constants.\<close>

definition sel_header_banner :: string where
  \<open>sel_header_banner = ''header[role="banner"]''\<close>

definition sel_role_navigation :: string where
  \<open>sel_role_navigation = ''[role="navigation"]''\<close>

definition sel_role_complementary :: string where
  \<open>sel_role_complementary = ''[role="complementary"]''\<close>

definition sel_role_main :: string where
  \<open>sel_role_main = ''[role="main"]''\<close>

definition sel_og_title :: string where
  \<open>sel_og_title = ''meta[property="og:title"]''\<close>

definition sel_description :: string where
  \<open>sel_description = ''meta[name="description"]''\<close>

definition sel_og_description :: string where
  \<open>sel_og_description = ''meta[property="og:description"]''\<close>

definition sel_og_url :: string where
  \<open>sel_og_url = ''meta[property="og:url"]''\<close>

definition sel_author :: string where
  \<open>sel_author = ''meta[name="author"]''\<close>

definition sel_article_author :: string where
  \<open>sel_article_author = ''meta[property="article:author"]''\<close>

definition sel_published_time :: string where
  \<open>sel_published_time = ''meta[property="article:published_time"]''\<close>

definition defaultRemove :: "string list" where
  "defaultRemove =
     [''script'', ''style'', ''noscript'', ''iframe'', ''svg'', ''nav'', ''footer'',
      sel_header_banner, sel_role_navigation, sel_role_complementary,
      ''.advertisement'', ''.ad'', ''.sidebar'', ''.cookie-banner'', ''#cookie-notice'']"

definition mainSelectors :: "string list" where
  "mainSelectors = [''main'', ''article'', sel_role_main, ''#content'', ''.content'']"

text \<open>The document after the removal pass: default and caller-supplied selectors, in order.\<close>

definition removeUnwanted :: "('d, 's) cheerio \<Rightarrow> string list option \<Rightarrow> 'd \<Rightarrow> 'd" where
  "removeUnwanted C extra d =
     foldl (\<lambda>doc sel. remove C sel doc) d
       (defaultRemove @ (case extra of None \<Rightarrow> [] | Some r \<Rightarrow> r))"

definition meta_content :: "('d, 's) cheerio \<Rightarrow> 'd \<Rightarrow> string \<Rightarrow> string option" where
  "meta_content C d sel = sel_attr C (select C d sel) ''content''"

definition extractMetadata :: "('d, 's) cheerio \<Rightarrow> 'd \<Rightarrow> string option \<Rightarrow> Metadata" where
  "extractMetadata C d u =
     \<lparr>Metadata.title =
        js_or (Some (sel_text C (select C d ''title''))) (meta_content C d sel_og_title),
      description =
        js_or (meta_content C d sel_description)
              (meta_content C d sel_og_description),
      Metadata.url = js_or u (meta_content C d sel_og_url),
      author =
        js_or (meta_content C d sel_author)
              (meta_content C d sel_article_author),
      publishDate =
        js_or (meta_content C d sel_published_time)
              (sel_attr C (select C d ''time[datetime]'') ''datetime'')\<rparr>"

text \<open>The loop over \<open>mainSelectors\<close>: the first selector that matches replaces the root.\<close>

fun probeMain :: "('d, 's) cheerio \<Rightarrow> 'd \<Rightarrow> string list \<Rightarrow> 's \<Rightarrow> 's" where
  "probeMain C d [] cur = cur"
| "probeMain C d (sel # sels) cur =
     (if sel_length C (select C d sel) > 0 then select C d sel else probeMain C d sels cur)"

definition contentRoot :: "('d, 's) cheerio \<Rightarrow> 'd \<Rightarrow> string option \<Rightarrow> 's" where
  "contentRoot C d focus =
     (if truthy focus then select C d (the focus)
      else probeMain C d mainSelectors (select C d ''body''))"

definition cleanUpWhitespace :: "string \<Rightarrow> string" where
  "cleanUpWhitespace markdown =
     collapse_newlines
       (join [LF, LF] (filter (\<lambda>line. length line > 0) (map trim (split_LF markdown))))"

definition headerText :: "Metadata \<Rightarrow> string" where
  "headerText m =
     (if truthy (Metadata.title m) then ''# '' @ the (Metadata.title m) @ [LF, LF] else [])
     @ (if truthy (Metadata.url m) then ''Source: '' @ the (Metadata.url m) @ [LF, LF] else [])
     @ (if truthy (author m) then ''Author: '' @ the (author m) @ [LF, LF] else [])
     @ (if truthy (publishDate m) then ''Published: '' @ the (publishDate m) @ [LF, LF] else [])
     @ (if truthy (description m)
        then the (description m) @ [LF, LF] @ ''---'' @ [LF, LF] else [])"

definition orDefault :: "bool option \<Rightarrow> bool" where
  "orDefault b = (case b of None \<Rightarrow> True | Some v \<Rightarrow> v)"

definition scrapeWebPage ::
  "('d, 's) cheerio \<Rightarrow> (string \<Rightarrow> string) \<Rightarrow> string \<Rightarrow> string option \<Rightarrow> ScraperOptions \<Rightarrow> WebContent"
where
  "scrapeWebPage C turndown html u options =
     (let d = removeUnwanted C (selectors_remove options) (load C html);
          meta = (if orDefault (includeMetadata options) then Some (extractMetadata C d u) else None);
          root = contentRoot C d (selectors_focus options);
          root' = (if orDefault (includeLinks options) then root else replaceLinks C root);
          markdown = turndown (case sel_html C root' of None \<Rightarrow> [] | Some h \<Rightarrow> h);
          markdown' = (if orDefault (cleanWhitespace options) then cleanUpWhitespace markdown
                       else markdown);
          finalText = (case meta of None \<Rightarrow> [] | Some m \<Rightarrow> headerText m) @ markdown'
      in \<lparr>content = finalText, metadata = meta\<rparr>)"

section \<open>HttpClient and WebContentFetcher (src/utils/HttpClient.ts, src/fetcher/WebContentFetcher.ts)\<close>

text \<open>
  What an awaited call of a library can give: a value, or a rejection with the thrown
  value. A response body is any JavaScript value; numbers are integers here.
\<close>

datatype 'a outcome = Resolves 'a | Rejects js_error

datatype js_value = JSNull | JSUndefined | JSNumber int | JSString string | JSObject

definition typeof :: "js_value \<Rightarrow> string" where
  "typeof v = (case v of JSNull \<Rightarrow> ''object'' | JSUndefined \<Rightarrow> ''undefined''
     | JSNumber n \<Rightarrow> ''number'' | JSString s \<Rightarrow> ''string'' | JSObject \<Rightarrow> ''object'')"

definition falsy :: "js_value \<Rightarrow> bool" where
  "falsy v = (case v of JSNull \<Rightarrow> True | JSUndefined \<Rightarrow> True
     | JSNumber n \<Rightarrow> n = 0 | JSString s \<Rightarrow> s = [] | JSObject \<Rightarrow> False)"

text \<open>
  The world outside the repository: the two libraries of the scraper, whether
  \<open>new URL(url)\<close> returns (\<open>URL_parses\<close>) or throws, and what \<open>axios.get\<close> gives for a URL.
\<close>

record ('d, 's) world =
  cheerio_lib :: "('d, 's) cheerio"
  turndown_lib :: "string \<Rightarrow> string"
  URL_parses :: "string \<Rightarrow> bool"
  axios_get :: "string \<Rightarrow> js_value outcome"

text \<open>The side effects of the fetch path, in the order they happen.\<close>

datatype effect = SetTimeout int | AxiosGet string nat

definition DEFAULT_TIMEOUT_MS :: nat where
  "DEFAULT_TIMEOUT_MS = 10000"

text \<open>\<open>HttpClient.get\<close>: the response data, or the error of axios rethrown after logging.\<close>

definition HttpClient_get :: "('d, 's) world \<Rightarrow> string \<Rightarrow> effect list \<times> js_value outcome" where
  "HttpClient_get W u = ([AxiosGet u DEFAULT_TIMEOUT_MS], axios_get W u)"

record WebContentFetcher =
  rateLimiter :: RateLimiter

definition new_WebContentFetcher :: "int \<Rightarrow> int \<Rightarrow> int \<Rightarrow> js_error + WebContentFetcher" where
  "new_WebContentFetcher rateLimit rateLimitInterval now =
     (case new_RateLimiter rateLimit rateLimitInterval now of
        Inl e \<Rightarrow> Inl e
      | Inr rl \<Rightarrow> Inr \<lparr>WebContentFetcher.rateLimiter = rl\<rparr>)"

definition parseContent :: "('d, 's) world \<Rightarrow> js_value \<Rightarrow> js_error + WebContent" where
  "parseContent W d =
     (if falsy d \<or> typeof d \<noteq> ''string'' then Inl (Error ''No content received'')
      else Inr (scrapeWebPage (cheerio_lib W) (turndown_lib W)
                  (case d of JSString s \<Rightarrow> s | _ \<Rightarrow> []) (Some [])
                  \<lparr>includeMetadata = Some True, includeLinks = Some True,
                   cleanWhitespace = Some True, selectors_remove = Some [],
                   selectors_focus = Some []\<rparr>))"

definition failure :: "string \<Rightarrow> FetchResult" where
  "failure msg = \<lparr>success = False, data = None, error = Some msg\<rparr>"

definition errorMessage :: "js_error \<Rightarrow> string \<Rightarrow> string" where
  "errorMessage e dflt = (case e of Error m \<Rightarrow> m | NonError v \<Rightarrow> dflt)"

text \<open>
  \<open>fetch(url)\<close>, with the two clock readings of the rate limiter. The result comes
  with the new state of the fetcher and the effects performed.
\<close>

definition fetch ::
  "('d, 's) world \<Rightarrow> int \<Rightarrow> int \<Rightarrow> WebContentFetcher \<Rightarrow> string
     \<Rightarrow> FetchResult \<times> WebContentFetcher \<times> effect list"
where
  "fetch W now later f u =
     (if u = [] \<or> length (trim u) = 0 then (failure ''URL cannot be empty'', f, [])
      else if \<not> URL_parses W u then (failure ''Invalid URL format'', f, [])
      else
        (let (waited, rl) = acquire now later (WebContentFetcher.rateLimiter f);
             f' = f\<lparr>WebContentFetcher.rateLimiter := rl\<rparr>;
             timer = (case waited of None \<Rightarrow> [] | Some t \<Rightarrow> [SetTimeout t]);
             (sent, response) = HttpClient_get W u;
             parsed = (case response of Rejects e \<Rightarrow> Inl e | Resolves d \<Rightarrow> parseContent W d)
         in (case parsed of
               Inr c \<Rightarrow> \<lparr>success = True, data = Some c, error = None\<rparr>
             | Inl e \<Rightarrow> failure (''Failed to fetch content: '' @ errorMessage e ''Unknown error''),
             f', timer @ sent)))"

section \<open>The fetch tool of the MCP server (src/mcp.ts)\<close>

definition maxLength :: nat where
  "maxLength = 10000"

definition truncationNotice :: string where
  "truncationNotice =
     ''...'' @ [LF, LF] @ ''[Content truncated - showing first 10000 characters]''"

text \<open>
  The \<open>try\<close> block of \<open>handleFetchTool\<close> from the fetch result on, with its \<open>catch\<close>:
  the text of the tool response, or the error thrown to the dispatcher.
\<close>

definition fetchToolResponse :: "string \<Rightarrow> FetchResult \<Rightarrow> js_error + string" where
  "fetchToolResponse u result =
     (if \<not> success result then
        Inl (Error (''Web content fetch failed: '' @
               (if truthy (error result) then the (error result) else ''Failed to fetch content'')))
      else if (case data result of None \<Rightarrow> True | Some c \<Rightarrow> content c = []) then
        Inr (''Successfully fetched content from '' @ u @ '', but no text content was extracted.'')
      else
        (let c = content (the (data result));
             shown = (if length c > maxLength then take maxLength c @ truncationNotice else c)
         in Inr (''Content from '' @ u @ '':'' @ [LF, LF] @ shown)))"

text \<open>\<open>handleFetchTool(args)\<close>; \<open>arg\<close> is the value of \<open>args?.url\<close>.\<close>

definition handleFetchTool ::
  "('d, 's) world \<Rightarrow> int \<Rightarrow> int \<Rightarrow> WebContentFetcher \<Rightarrow> js_value
     \<Rightarrow> (js_error + string) \<times> WebContentFetcher \<times> effect list"
where
  "handleFetchTool W now later f arg =
     (if falsy arg \<or> typeof arg \<noteq> ''string''
        then (Inl (Error ''Missing or invalid URL parameter''), f, [])
      else
        (let u = trim (case arg of JSString s \<Rightarrow> s | _ \<Rightarrow> [])
         in if length u = 0 then (Inl (Error ''URL cannot be empty''), f, [])
            else if \<not> URL_parses W u then (Inl (Error ''Invalid URL format''), f, [])
            else (let (result, f', eff) = fetch W now later f u
                  in (fetchToolResponse u result, f', eff))))"

section \<open>Result extraction of WebSearcher (src/searcher/WebSearcher.ts, the page.evaluate callback)\<close>

text \<open>
  The page as the callback sees it. An element has its \<open>textContent\<close>, its \<open>href\<close>
  property (\<open>None\<close> where the element has none, as for an element that is no anchor),
  its \<open>href\<close> attribute (\<open>None\<close> when \<open>getAttribute\<close> gives \<open>null\<close>) and, for each selector,
  the element that \<open>querySelector\<close> finds below it. A document gives the elements of
  \<open>querySelectorAll\<close> for each selector.
\<close>

datatype dom_element =
  Element (textContent: string) (href: "string option") (hrefAttribute: "string option")
          (descendants: "(string \<times> dom_element) list")

type_synonym document = "(string \<times> dom_element list) list"

definition querySelector :: "dom_element \<Rightarrow> string \<Rightarrow> dom_element option" where
  "querySelector el sel = map_of (descendants el) sel"

definition querySelectorAll :: "document \<Rightarrow> string \<Rightarrow> dom_element list" where
  "querySelectorAll doc sel = (case map_of doc sel of None \<Rightarrow> [] | Some es \<Rightarrow> es)"

definition sel_result_title_a :: string where
  \<open>sel_result_title_a = ''a[data-testid="result-title-a"]''\<close>

definition sel_data_result_snippet :: string where
  \<open>sel_data_result_snippet = ''[data-result="snippet"]''\<close>

definition sel_testid_result :: string where
  \<open>sel_testid_result = ''[data-testid*="result"]''\<close>

definition resultSelectors :: "string list" where
  "resultSelectors =
     [''.result'', ''.web-result'', ''[data-result]'', ''.result__body'', ''.results_links'',
      ''.result-link'', ''.results .result'', ''article'', sel_testid_result, ''.snippet'']"

definition titleSelectors :: "string list" where
  "titleSelectors =
     [''.result__title a'', ''.result__a'', ''h2 a'', ''h3 a'', ''.result-title a'',
      sel_result_title_a, ''a[href]'', ''.titlelink'', ''.result-header a'']"

definition snippetSelectors :: "string list" where
  "snippetSelectors =
     [''.result__snippet'', ''.result-snippet'', ''.snippet'', ''.description'',
      sel_data_result_snippet, ''.result__body'', ''.summary'']"

text \<open>
  The two inner loops: the variable keeps the element of the last selector tried, and
  the loop ends at the first selector whose element has text that is not blank.
\<close>

fun findElement :: "dom_element \<Rightarrow> string list \<Rightarrow> dom_element option \<Rightarrow> dom_element option" where
  "findElement el [] cur = cur"
| "findElement el (sel # sels) cur =
     (case querySelector el sel of
        None \<Rightarrow> findElement el sels None
      | Some t \<Rightarrow> if trim (textContent t) \<noteq> [] then Some t else findElement el sels (Some t))"

definition normalizeUrl :: "string \<Rightarrow> string" where
  "normalizeUrl u =
     (if startsWith u ''//'' then ''https:'' @ u
      else if startsWith u ''/'' then ''https://duckduckgo.com'' @ u
      else if startsWith u ''http://'' then replace u ''http://'' ''https://''
      else u)"

definition keepResult :: "string \<Rightarrow> string \<Rightarrow> bool" where
  "keepResult t u =
     (t \<noteq> [] \<and> u \<noteq> []
      \<and> \<not> includes_str u ''duckduckgo.com/y.js''
      \<and> \<not> includes_str u ''duckduckgo.com/l/?uddg=''
      \<and> \<not> includes_str u ''javascript:''
      \<and> startsWith u ''http'')"

text \<open>The body of \<open>forEach\<close> for one result element: the results it pushes.\<close>

definition processElement :: "dom_element \<Rightarrow> SearchResult list" where
  "processElement el =
     (case findElement el titleSelectors None of
        None \<Rightarrow> []
      | Some titleElement \<Rightarrow>
          (let t = trim (textContent titleElement);
               raw = (case js_or (js_or (href titleElement) (hrefAttribute titleElement)) (Some [])
                      of None \<Rightarrow> [] | Some v \<Rightarrow> v);
               s = (case findElement el snippetSelectors None of
                      None \<Rightarrow> [] | Some snippetElement \<Rightarrow> trim (textContent snippetElement));
               u = normalizeUrl raw
           in if keepResult t u
              then [\<lparr>SearchResult.title = t, SearchResult.url = u, snippet = s, icon = Some []\<rparr>]
              else []))"

text \<open>
  The outer loop over the result selectors, with the array \<open>searchResults\<close> as
  accumulator: it stops after the first selector that matched elements and left the
  array non-empty.
\<close>

fun extractLoop :: "document \<Rightarrow> string list \<Rightarrow> SearchResult list \<Rightarrow> SearchResult list" where
  "extractLoop doc [] searchResults = searchResults"
| "extractLoop doc (sel # sels) searchResults =
     (let resultElements = querySelectorAll doc sel
      in if length resultElements > 0 then
           (let searchResults' = searchResults @ concat (map processElement resultElements)
            in if length searchResults' > 0 then searchResults'
               else extractLoop doc sels searchResults')
         else extractLoop doc sels searchResults)"

definition extractResults :: "document \<Rightarrow> SearchResult list" where
  "extractResults doc = extractLoop doc resultSelectors []"

section \<open>WebSearcher.search (src/searcher/WebSearcher.ts)\<close>

text \<open>
  The browser is outside the repository. A \<open>browser_world\<close> fixes what each awaited
  call of the automation library gives during one search: \<open>launch\<close> resolves with a
  browser handle or with \<open>null\<close>, \<open>query\<close> tells whether \<open>page.$\<close> found an element,
  \<open>evaluate\<close> is the document on which the extraction callback runs. The calls made are
  recorded as \<open>action\<close>s with their arguments; console output is not modelled. The
  source swallows what \<open>page.close\<close> and \<open>browser.close\<close> throw, so the model never reads
  \<open>closePage\<close> and \<open>closeBrowser\<close>.
\<close>

record WebSearcher =
  rateLimiter :: RateLimiter
  baseUrl :: string
  browser :: "nat option"
  headless :: bool

datatype action =
    Timer int
  | Launch bool
  | NewPage
  | SetUserAgent string
  | SetViewport nat nat
  | Goto string nat
  | Query string
  | WaitForFunction nat
  | WaitForSelector string nat
  | TypeText string string
  | Click string
  | WaitForNavigation nat
  | Evaluate
  | ClosePage
  | CloseBrowser

record browser_world =
  launch :: "nat option outcome"
  newPage :: "unit outcome"
  setUserAgent :: "unit outcome"
  setViewport :: "unit outcome"
  goto :: "unit outcome"
  query :: "string \<Rightarrow> bool outcome"
  waitForFunction :: "unit outcome"
  waitForSelector :: "string \<Rightarrow> unit outcome"
  typeText :: "unit outcome"
  click :: "unit outcome"
  waitForNavigation :: "unit outcome"
  evaluate :: "document outcome"
  closePage :: "unit outcome"
  closeBrowser :: "unit outcome"

definition new_WebSearcher :: "bool \<Rightarrow> int \<Rightarrow> WebSearcher" where
  "new_WebSearcher h now =
     \<lparr>WebSearcher.rateLimiter = \<lparr>requests = 0, limit = 1, interval = 2000, lastRequestTime = now\<rparr>,
      baseUrl = ''https://html.duckduckgo.com'', browser = None, headless = h\<rparr>"

text \<open>
  Inside the \<open>try\<close> block a step either goes on with a value or ends the block: by a
  thrown value, or by a \<open>return\<close>.
\<close>

datatype abrupt = Thrown js_error | Returned "SearchResult list"

type_synonym 'a script = "action list \<times> (abrupt + 'a)"

definition perform :: "action \<Rightarrow> 'a outcome \<Rightarrow> 'a script" where
  "perform a r = ([a], case r of Resolves x \<Rightarrow> Inr x | Rejects e \<Rightarrow> Inl (Thrown e))"

definition andThen :: "'a script \<Rightarrow> ('a \<Rightarrow> 'b script) \<Rightarrow> 'b script" where
  "andThen m k =
     (case m of
        (l, Inl a) \<Rightarrow> (l, Inl a)
      | (l, Inr x) \<Rightarrow> (case k x of (l', r) \<Rightarrow> (l @ l', r)))"

definition userAgent :: string where
  "userAgent = ''Mozilla/5.0 (Macintosh; Intel Mac OS X 10_15_7) AppleWebKit/537.36 (KHTML, like Gecko) Chrome/121.0.0.0 Safari/537.36''"

definition captchaSelector :: string where
  \<open>captchaSelector = ''.captcha, [id*="captcha"], [class*="captcha"]''\<close>

definition searchBoxSelector :: string where
  \<open>searchBoxSelector = ''input[name="q"], #search_form_input, .search__input''\<close>

definition submitButton :: string where
  \<open>submitButton = ''button[type="submit"], .search__button, input[type="submit"]''\<close>

definition possibleSelectors :: "string list" where
  "possibleSelectors =
     [''.result'', ''.web-result'', ''[data-result]'', ''.result__body'', ''.results_links'',
      ''.result-link'', ''.results .result'']"

text \<open>
  \<open>initBrowser\<close>. The call of \<open>puppeteer.launch\<close> is made only when no handle is stored;
  the handle it resolves with (possibly \<open>null\<close>) is stored.
\<close>

definition initBrowser ::
  "browser_world \<Rightarrow> WebSearcher \<Rightarrow> WebSearcher \<times> action list \<times> js_error option" where
  "initBrowser W ws =
     (if browser ws = None then
        (case launch W of
           Resolves h \<Rightarrow> (ws\<lparr>browser := h\<rparr>, [Launch (headless ws)], None)
         | Rejects e \<Rightarrow> (ws, [Launch (headless ws)], Some e))
      else (ws, [], None))"

definition close :: "browser_world \<Rightarrow> WebSearcher \<Rightarrow> WebSearcher \<times> action list" where
  "close W ws =
     (if browser ws \<noteq> None then (ws\<lparr>browser := None\<rparr>, [CloseBrowser]) else (ws, []))"

text \<open>The loop that waits for one of the result selectors; a timeout moves to the next.\<close>

fun probeSelectors :: "browser_world \<Rightarrow> string list \<Rightarrow> action list \<times> bool" where
  "probeSelectors W [] = ([], False)"
| "probeSelectors W (sel # sels) =
     (case waitForSelector W sel of
        Resolves x \<Rightarrow> ([WaitForSelector sel 5000], True)
      | Rejects e \<Rightarrow>
          (case probeSelectors W sels of (l, found) \<Rightarrow> (WaitForSelector sel 5000 # l, found)))"

text \<open>The \<open>try\<close> block from the captcha check on.\<close>

definition captchaStep :: "browser_world \<Rightarrow> bool \<Rightarrow> bool \<Rightarrow> unit script" where
  "captchaStep W h captchaElement =
     (if captchaElement then
        (if h then ([], Inl (Returned []))
         else perform (WaitForFunction 10000) (waitForFunction W))
      else ([], Inr ()))"

definition submitAndExtract :: "browser_world \<Rightarrow> string \<Rightarrow> (SearchResult list) script" where
  "submitAndExtract W q =
     andThen (perform (WaitForSelector searchBoxSelector 5000) (waitForSelector W searchBoxSelector)) (\<lambda>_.
     andThen (perform (TypeText searchBoxSelector q) (typeText W)) (\<lambda>_.
     andThen (perform (Click submitButton) (click W)) (\<lambda>_.
     andThen (perform (WaitForNavigation 30000) (waitForNavigation W)) (\<lambda>_.
     andThen (case probeSelectors W possibleSelectors of (l, found) \<Rightarrow> (l, Inr found)) (\<lambda>resultsFound.
     andThen (perform Evaluate (evaluate W)) (\<lambda>doc.
       ([], Inl (Returned (extractResults doc)))))))))"

text \<open>The \<open>try\<close> block once the page exists.\<close>

definition pageScript :: "browser_world \<Rightarrow> bool \<Rightarrow> string \<Rightarrow> (SearchResult list) script" where
  "pageScript W h q =
     andThen (perform (SetUserAgent userAgent) (setUserAgent W)) (\<lambda>_.
     andThen (perform (SetViewport 1366 768) (setViewport W)) (\<lambda>_.
     andThen (perform (Goto ''https://duckduckgo.com'' 30000) (goto W)) (\<lambda>_.
     andThen (perform (Query captchaSelector) (query W captchaSelector)) (\<lambda>captchaElement.
     andThen (captchaStep W h captchaElement) (\<lambda>_.
       submitAndExtract W q)))))"

text \<open>
  What \<open>search\<close> returns for the way its \<open>try\<close> block ended: the \<open>catch\<close> turns a
  thrown value into the empty list.
\<close>

definition resultOf :: "(abrupt + SearchResult list) \<Rightarrow> SearchResult list" where
  "resultOf r = (case r of Inl (Returned rs) \<Rightarrow> rs | Inl (Thrown e) \<Rightarrow> [] | Inr rs \<Rightarrow> rs)"

text \<open>
  \<open>search(query)\<close>: the results, the new state of the searcher and the actions made.
  A rejected launch, a \<open>null\<close> browser and a rejected \<open>newPage\<close> end in the \<open>catch\<close>
  block before a page exists. The page is closed in the \<open>finally\<close> block whenever \<open>newPage\<close> has resolved; an error
  of \<open>page.close\<close> is swallowed.
\<close>

definition search ::
  "browser_world \<Rightarrow> int \<Rightarrow> int \<Rightarrow> WebSearcher \<Rightarrow> string
     \<Rightarrow> SearchResult list \<times> WebSearcher \<times> action list"
where
  "search W now later ws q =
     (if q = [] \<or> length (trim q) = 0 then ([], ws, [])
      else
        (let (waited, rl) = acquire now later (WebSearcher.rateLimiter ws);
             ws1 = ws\<lparr>WebSearcher.rateLimiter := rl\<rparr>;
             timer = (case waited of None \<Rightarrow> [] | Some t \<Rightarrow> [Timer t]);
             (ws2, launched, failed) = initBrowser W ws1
         in (case failed of
               Some e \<Rightarrow> ([], ws2, timer @ launched)
             | None \<Rightarrow>
                 (case browser ws2 of
                    None \<Rightarrow> ([], ws2, timer @ launched)
                  | Some b \<Rightarrow>
                      (case newPage W of
                         Rejects e \<Rightarrow> ([], ws2, timer @ launched @ [NewPage])
                       | Resolves p \<Rightarrow>
                           (let (done, r) = pageScript W (headless ws2) q
                            in (resultOf r, ws2,
                                timer @ launched @ [NewPage] @ done @ [ClosePage])))))))"

section \<open>Concurrent callers of initBrowser\<close>

text \<open>
  Several \<open>search\<close> calls on one searcher run as coroutines of the event loop: a caller
  runs without interruption up to its next \<open>await\<close>. \<open>initBrowser\<close> has one \<open>await\<close>,
  that of \<open>puppeteer.launch\<close>, so a caller is in one of these places: about to enter
  \<open>initBrowser\<close>; suspended on the launch it started (the \<open>k\<close>-th one of the searcher);
  or past \<open>initBrowser\<close>. A schedule is the order in which the event loop resumes the
  callers; the \<open>k\<close>-th launch resolves with the handle \<open>k\<close>.
\<close>

datatype caller = Entering | AwaitingLaunch nat | Past

record init_state =
  handle :: "nat option"
  launches :: nat
  callers :: "caller list"

definition resume :: "nat \<Rightarrow> init_state \<Rightarrow> init_state" where
  "resume i st =
     (if i < length (callers st) then
        (case callers st ! i of
           Entering \<Rightarrow>
             (if handle st = None
              then st\<lparr>launches := launches st + 1,
                      callers := (callers st)[i := AwaitingLaunch (launches st)]\<rparr>
              else st\<lparr>callers := (callers st)[i := Past]\<rparr>)
         | AwaitingLaunch k \<Rightarrow> st\<lparr>handle := Some k, callers := (callers st)[i := Past]\<rparr>
         | Past \<Rightarrow> st)
      else st)"

definition run_schedule :: "nat list \<Rightarrow> init_state \<Rightarrow> init_state" where
  "run_schedule sched st = foldl (\<lambda>s i. resume i s) st sched"

definition fresh :: "nat \<Rightarrow> init_state" where
  "fresh n = \<lparr>handle = None, launches = 0, callers = replicate n Entering\<rparr>"

section \<open>A table-driven stand-in for the libraries\<close>

text \<open>
  For evaluating the model on examples: a parsed document is a table from selectors to
  the elements they match, an element being its attributes, its text and its inner
  HTML; removal deletes the entry of the selector; the Markdown converter of the
  example world is the identity, and a URL parses when it starts with \<open>https://\<close>.
\<close>

type_synonym table_element = "(string \<times> string) list \<times> string \<times> string"

type_synonym table_document = "(string \<times> table_element list) list"

definition table_cheerio ::
  "(string \<Rightarrow> table_document) \<Rightarrow> (table_document, table_element list) cheerio" where
  "table_cheerio parse =
     \<lparr>load = parse,
      remove = (\<lambda>sel d. filter (\<lambda>entry. fst entry \<noteq> sel) d),
      select = (\<lambda>d sel. case map_of d sel of None \<Rightarrow> [] | Some es \<Rightarrow> es),
      sel_length = length,
      sel_text = (\<lambda>es. concat (map (\<lambda>e. fst (snd e)) es)),
      sel_attr = (\<lambda>es name. case es of [] \<Rightarrow> None | e # rest \<Rightarrow> map_of (fst e) name),
      sel_html = (\<lambda>es. case es of [] \<Rightarrow> None | e # rest \<Rightarrow> Some (snd (snd e))),
      replaceLinks = (\<lambda>es. es)\<rparr>"

definition example_page :: table_document where
  "example_page =
     [(''title'', [([], ''Example'', ''Example'')]),
      (sel_og_title, [([(''content'', ''OG title'')], [], [])]),
      (sel_og_description, [([(''content'', ''About'')], [], [])]),
      (sel_og_url, [([(''content'', ''https://example.com/canonical'')], [], [])]),
      (sel_author, [([(''content'', ''Ada'')], [], [])]),
      (sel_article_author, [([(''content'', ''Bob'')], [], [])]),
      (''time[datetime]'', [([(''datetime'', ''2024-01-02'')], [], [])]),
      (''nav'', [([], ''Menu'', ''Menu'')]),
      (''body'', [([], ''Hi'', '' Hi '' @ [LF, LF, LF] @ ''you'')])]"

definition example_world :: "js_value outcome \<Rightarrow> (table_document, table_element list) world" where
  "example_world response =
     \<lparr>cheerio_lib = table_cheerio (\<lambda>html. if html = ''<html>'' then example_page else []),
      turndown_lib = (\<lambda>h. h),
      URL_parses = (\<lambda>u. startsWith u ''https://''),
      axios_get = (\<lambda>u. response)\<rparr>"

definition defaultOptions :: ScraperOptions where
  "defaultOptions =
     \<lparr>includeMetadata = None, includeLinks = None, cleanWhitespace = None,
      selectors_remove = None, selectors_focus = None\<rparr>"

definition example_fetcher :: WebContentFetcher where
  "example_fetcher =
     \<lparr>WebContentFetcher.rateLimiter =
        \<lparr>requests = 0, limit = 1, interval = 1000, lastRequestTime = 0\<rparr>\<rparr>"

section \<open>An example browser\<close>

text \<open>
  For evaluating \<open>search\<close> on examples: a browser in which every call resolves, with a
  given answer of \<open>page.$\<close> to the captcha query, a given outcome of \<open>waitForFunction\<close>
  and a given document at extraction time.
\<close>

definition example_browser :: "bool \<Rightarrow> unit outcome \<Rightarrow> document \<Rightarrow> browser_world" where
  "example_browser captcha wait doc =
     \<lparr>launch = Resolves (Some 0), newPage = Resolves (), setUserAgent = Resolves (),
      setViewport = Resolves (), goto = Resolves (), query = (\<lambda>sel. Resolves captcha),
      waitForFunction = wait, waitForSelector = (\<lambda>sel. Resolves ()), typeText = Resolves (),
      click = Resolves (), waitForNavigation = Resolves (), evaluate = Resolves doc,
      closePage = Resolves (), closeBrowser = Resolves ()\<rparr>"

definition example_results :: document where
  "example_results =
     [(''.result'',
       [Element ''Example Domain More'' None None
          [(''.result__title a'',
            Element '' Example Domain '' (Some ''http://example.com/'') (Some ''http://example.com/'') []),
           (''.result__snippet'', Element ''More'' None None [])],
        Element ''Ad'' None None
          [(''.result__a'',
            Element ''Ad'' (Some ''https://duckduckgo.com/y.js?ad=1'') (Some ''/y.js?ad=1'') [])],
        Element ''Other'' None None
          [(''h2 a'', Element ''Other'' (Some ''httpx://example.org/'') (Some ''httpx://example.org/'') [])]])]"

section \<open>Unfolding rules for evaluation\<close>

lemmas string_eval = startsWith_def trim_def isWhiteSpace_def truthy_def js_or_def

lemmas scrape_eval =
  scrapeWebPage_def removeUnwanted_def extractMetadata_def meta_content_def contentRoot_def
  cleanUpWhitespace_def headerText_def orDefault_def defaultRemove_def mainSelectors_def
  collapse_newlines_def emit_run_def

lemmas selector_eval =
  sel_header_banner_def sel_role_navigation_def sel_role_complementary_def sel_role_main_def
  sel_og_title_def sel_description_def sel_og_description_def sel_og_url_def sel_author_def
  sel_article_author_def sel_published_time_def

lemmas example_eval =
  example_world_def table_cheerio_def example_page_def example_fetcher_def defaultOptions_def

lemmas fetch_eval =
  fetch_def failure_def HttpClient_get_def parseContent_def falsy_def typeof_def
  errorMessage_def acquire_def DEFAULT_TIMEOUT_MS_def

lemmas search_eval =
  search_def initBrowser_def pageScript_def submitAndExtract_def captchaStep_def perform_def
  andThen_def resultOf_def acquire_def new_WebSearcher_def example_browser_def
  possibleSelectors_def

lemmas extract_eval =
  extractResults_def resultSelectors_def titleSelectors_def snippetSelectors_def
  processElement_def normalizeUrl_def keepResult_def querySelector_def querySelectorAll_def
  example_results_def sel_result_title_a_def sel_data_result_snippet_def sel_testid_result_def

section \<open>Properties of the rate limiter\<close>

text \<open>
  Claim C1. For a limiter with \<open>limit > 0\<close> and \<open>interval > 0\<close>, \<open>acquire\<close> is the
  fixed-window algorithm. With \<open>elapsed = now - lastRequestTime\<close>:
  when \<open>elapsed \<ge> interval\<close> the counter is reset and the request is the first of a
  window that starts at \<open>now\<close>, granted without delay;
  when the window is still open and \<open>requests < limit\<close> the counter is incremented
  without delay, and the window start moves to \<open>now\<close> exactly when this is the first
  request counted in the window;
  otherwise the call waits \<open>interval - elapsed\<close> (a positive time) and then sets
  \<open>requests = 1\<close> and the window start to the clock value read after the wait.
\<close>

theorem acquire_fixed_window:
  assumes "0 < limit rl" and "0 < interval rl"
  shows "(interval rl \<le> now - lastRequestTime rl \<longrightarrow>
            acquire now later rl = (None, rl\<lparr>requests := 1, lastRequestTime := now\<rparr>))
       \<and> (now - lastRequestTime rl < interval rl \<and> requests rl < limit rl \<longrightarrow>
            acquire now later rl =
              (None, rl\<lparr>requests := requests rl + 1,
                         lastRequestTime := (if requests rl = 0 then now else lastRequestTime rl)\<rparr>))
       \<and> (now - lastRequestTime rl < interval rl \<and> limit rl \<le> requests rl \<longrightarrow>
            acquire now later rl =
              (Some (interval rl - (now - lastRequestTime rl)),
               rl\<lparr>requests := 1, lastRequestTime := later\<rparr>)
            \<and> 0 < interval rl - (now - lastRequestTime rl))"
  using assms by (simp add: acquire_def Let_def)

theorem acquire_fixed_window_witness:
  "0 < limit \<lparr>requests = 1, limit = 1, interval = 2000, lastRequestTime = 0\<rparr>
   \<and> 0 < interval \<lparr>requests = 1, limit = 1, interval = 2000, lastRequestTime = 0\<rparr>
   \<and> acquire 500 2003 \<lparr>requests = 1, limit = 1, interval = 2000, lastRequestTime = 0\<rparr>
       = (Some 1500, \<lparr>requests = 1, limit = 1, interval = 2000, lastRequestTime = 2003\<rparr>)
   \<and> acquire 2500 0 \<lparr>requests = 1, limit = 1, interval = 2000, lastRequestTime = 0\<rparr>
       = (None, \<lparr>requests = 1, limit = 1, interval = 2000, lastRequestTime = 2500\<rparr>)
   \<and> acquire 700 0 \<lparr>requests = 1, limit = 3, interval = 2000, lastRequestTime = 0\<rparr>
       = (None, \<lparr>requests = 2, limit = 3, interval = 2000, lastRequestTime = 0\<rparr>)"
  using acquire_fixed_window
          [of "\<lparr>requests = 1, limit = 1, interval = 2000, lastRequestTime = 0\<rparr>" 500 2003]
        acquire_fixed_window
          [of "\<lparr>requests = 1, limit = 1, interval = 2000, lastRequestTime = 0\<rparr>" 2500 0]
        acquire_fixed_window
          [of "\<lparr>requests = 1, limit = 3, interval = 2000, lastRequestTime = 0\<rparr>" 700 0]
  by simp

section \<open>Properties of the fetch path\<close>

text \<open>
  Claim C3. \<open>fetch\<close> validates before any side effect. An empty or whitespace-only URL
  gives the failure "URL cannot be empty"; a URL that is not blank and that \<open>new URL\<close>
  rejects gives the failure "Invalid URL format". In both cases no effect is performed
  (the HTTP client is not called, no timer is set) and the fetcher, with its rate
  limiter, is unchanged.
\<close>

theorem fetch_validates_before_effects:
  "(u = [] \<or> trim u = [] \<longrightarrow>
      fetch W now later f u =
        (\<lparr>success = False, data = None, error = Some ''URL cannot be empty''\<rparr>, f, []))
   \<and> (u \<noteq> [] \<and> trim u \<noteq> [] \<and> \<not> URL_parses W u \<longrightarrow>
      fetch W now later f u =
        (\<lparr>success = False, data = None, error = Some ''Invalid URL format''\<rparr>, f, []))"
  by (simp add: fetch_def failure_def)

theorem fetch_validates_before_effects_witness:
  "fetch (example_world (Resolves (JSString ''<html>''))) 10 20 example_fetcher ''   '' =
     (\<lparr>success = False, data = None, error = Some ''URL cannot be empty''\<rparr>, example_fetcher, [])
   \<and> fetch (example_world (Resolves (JSString ''<html>''))) 10 20 example_fetcher ''not-a-url'' =
     (\<lparr>success = False, data = None, error = Some ''Invalid URL format''\<rparr>, example_fetcher, [])"
  using fetch_validates_before_effects
          [of "''   ''" "example_world (Resolves (JSString ''<html>''))" 10 20 example_fetcher]
        fetch_validates_before_effects
          [of "''not-a-url''" "example_world (Resolves (JSString ''<html>''))" 10 20 example_fetcher]
  by (simp add: string_eval example_world_def)

text \<open>
  Claim C4. For a URL that passes validation, a response of the HTTP client that is
  falsy or not a string (\<open>null\<close>, \<open>undefined\<close>, a number, an object, the empty string) gives
  the failure "Failed to fetch content: No content received"; every non-empty string,
  a whitespace-only one included, is scraped with the default options and gives a
  success.
\<close>

theorem fetch_no_content_received:
  assumes "u \<noteq> []" and "trim u \<noteq> []" and "URL_parses W u" and "axios_get W u = Resolves d"
  shows "(d = JSNull \<or> d = JSUndefined \<or> (\<exists>n. d = JSNumber n) \<or> d = JSObject \<or> d = JSString [] \<longrightarrow>
            fst (fetch W now later f u) =
              \<lparr>success = False, data = None,
               error = Some ''Failed to fetch content: No content received''\<rparr>)
       \<and> (\<forall>s. d = JSString s \<and> s \<noteq> [] \<longrightarrow>
            fst (fetch W now later f u) =
              \<lparr>success = True,
               data = Some (scrapeWebPage (cheerio_lib W) (turndown_lib W) s (Some [])
                 \<lparr>includeMetadata = Some True, includeLinks = Some True,
                  cleanWhitespace = Some True, selectors_remove = Some [],
                  selectors_focus = Some []\<rparr>),
               error = None\<rparr>)"
  using assms
  by (auto simp add: fetch_def failure_def HttpClient_get_def parseContent_def falsy_def
      typeof_def errorMessage_def Let_def split: prod.splits)

theorem fetch_no_content_received_witness:
  "fst (fetch (example_world (Resolves (JSNumber 123))) 10 20 example_fetcher ''https://example.com'') =
     \<lparr>success = False, data = None,
      error = Some ''Failed to fetch content: No content received''\<rparr>
   \<and> trim ('' '' @ [LF, CHR 0x09]) = []
   \<and> success (fst (fetch (example_world (Resolves (JSString ('' '' @ [LF, CHR 0x09])))) 10 20
         example_fetcher ''https://example.com''))"
  using fetch_no_content_received
          [of "''https://example.com''" "example_world (Resolves (JSNumber 123))" "JSNumber 123"
              10 20 example_fetcher]
        fetch_no_content_received
          [of "''https://example.com''" "example_world (Resolves (JSString ('' '' @ [LF, CHR 0x09])))"
              "JSString ('' '' @ [LF, CHR 0x09])" 10 20 example_fetcher]
  by (simp add: string_eval example_world_def)

text \<open>
  Claim C10, as stated, fails: the \<open>url\<close> of the metadata can be the requested URL.
  A page whose \<open>og:url\<close> names its own address, requested at that address, gives a
  successful result whose metadata \<open>url\<close> equals the URL of the request.
\<close>

theorem fetch_metadata_url_equals_request_counterexample:
  "success (fst (fetch (example_world (Resolves (JSString ''<html>''))) 10 20 example_fetcher
       ''https://example.com/canonical''))
   \<and> map_option Metadata.url
       (metadata (the (data (fst (fetch (example_world (Resolves (JSString ''<html>''))) 10 20
          example_fetcher ''https://example.com/canonical''))))) =
     Some (Some ''https://example.com/canonical'')"
  by (simp add: fetch_eval string_eval scrape_eval example_eval selector_eval Let_def)

text \<open>
  Claim C10, amended. Whatever URL is requested, the scraper is called with the empty
  string as its URL argument, so the \<open>url\<close> of the metadata of a successful result does
  not depend on the requested URL: two requests that receive the same page give the
  same content and metadata, and the \<open>url\<close> is the \<open>content\<close> attribute of the \<open>og:url\<close>
  meta element of the page (after the removal pass), absent when the page has none.
\<close>

theorem fetch_metadata_url_is_og_url:
  assumes "u \<noteq> []" and "trim u \<noteq> []" and "URL_parses W u"
    and "axios_get W u = Resolves (JSString s)" and "s \<noteq> []"
    and "u' \<noteq> []" and "trim u' \<noteq> []" and "URL_parses W u'"
    and "axios_get W u' = Resolves (JSString s)"
  shows "\<exists>c m. fst (fetch W now later f u) = \<lparr>success = True, data = Some c, error = None\<rparr>
           \<and> fst (fetch W now' later' f' u') = \<lparr>success = True, data = Some c, error = None\<rparr>
           \<and> c = scrapeWebPage (cheerio_lib W) (turndown_lib W) s (Some [])
                 \<lparr>includeMetadata = Some True, includeLinks = Some True,
                  cleanWhitespace = Some True, selectors_remove = Some [],
                  selectors_focus = Some []\<rparr>
           \<and> metadata c = Some m
           \<and> Metadata.url m =
               sel_attr (cheerio_lib W)
                 (select (cheerio_lib W)
                    (removeUnwanted (cheerio_lib W) (Some []) (load (cheerio_lib W) s)) sel_og_url)
                 ''content''"
  using assms
  by (simp add: fetch_def HttpClient_get_def parseContent_def falsy_def typeof_def Let_def
      scrapeWebPage_def orDefault_def extractMetadata_def meta_content_def js_or_def truthy_def
      split: prod.splits)

theorem fetch_metadata_url_is_og_url_witness:
  "map_option Metadata.url
     (metadata (the (data (fst (fetch (example_world (Resolves (JSString ''<html>''))) 10 20
        example_fetcher ''https://example.com/requested''))))) =
     Some (Some ''https://example.com/canonical'')
   \<and> fst (fetch (example_world (Resolves (JSString ''<html>''))) 30 40
        example_fetcher ''https://example.com/other'') =
     fst (fetch (example_world (Resolves (JSString ''<html>''))) 10 20
        example_fetcher ''https://example.com/requested'')
   \<and> map_option Metadata.url
     (metadata (the (data (fst (fetch (example_world (Resolves (JSString ''<p>''))) 10 20
        example_fetcher ''https://example.com/requested''))))) =
     Some None"
  using fetch_metadata_url_is_og_url
          [of "''https://example.com/requested''" "example_world (Resolves (JSString ''<html>''))"
              "''<html>''" "''https://example.com/other''" 10 20 example_fetcher
              30 40 example_fetcher]
        fetch_metadata_url_is_og_url
          [of "''https://example.com/requested''" "example_world (Resolves (JSString ''<p>''))"
              "''<p>''" "''https://example.com/requested''" 10 20 example_fetcher
              10 20 example_fetcher]
  by (auto simp add: string_eval example_world_def table_cheerio_def example_page_def
      removeUnwanted_def defaultRemove_def selector_eval)

section \<open>Properties of the content extractor\<close>

text \<open>
  Claim C5. With \<open>includeMetadata\<close> enabled (left out or \<open>true\<close>), the metadata are read
  from the document after the removal pass with a fixed precedence, a value counting
  as present when it is a non-empty string: the title is the text of \<open>title\<close>, else the
  content of \<open>og:title\<close>; the description is the content of \<open>meta[name=description]\<close>,
  else of \<open>og:description\<close>; the url is the argument of the caller, else the content of
  \<open>og:url\<close>; the author is the content of \<open>meta[name=author]\<close>, else of
  \<open>article:author\<close>; the publish date is the content of \<open>article:published_time\<close>,
  else the \<open>datetime\<close> attribute of the first \<open>time[datetime]\<close> element.
\<close>

theorem scrapeWebPage_metadata_precedence:
  assumes "includeMetadata options \<noteq> Some False"
  shows "\<exists>m. metadata (scrapeWebPage C T html u options) = Some m
     \<and> (let d = removeUnwanted C (selectors_remove options) (load C html);
             content_of = (\<lambda>sel. sel_attr C (select C d sel) ''content'')
         in Metadata.title m =
              (if sel_text C (select C d ''title'') \<noteq> []
               then Some (sel_text C (select C d ''title'')) else content_of sel_og_title)
          \<and> description m =
              (if truthy (content_of sel_description)
               then content_of sel_description else content_of sel_og_description)
          \<and> Metadata.url m = (if truthy u then u else content_of sel_og_url)
          \<and> author m =
              (if truthy (content_of sel_author)
               then content_of sel_author else content_of sel_article_author)
          \<and> publishDate m =
              (if truthy (content_of sel_published_time)
               then content_of sel_published_time
               else sel_attr C (select C d ''time[datetime]'') ''datetime''))"
proof -
  have "orDefault (includeMetadata options)"
    using assms by (cases "includeMetadata options") (simp_all add: orDefault_def)
  then show ?thesis
    by (simp add: scrapeWebPage_def Let_def extractMetadata_def meta_content_def js_or_def
        truthy_def)
qed

theorem scrapeWebPage_metadata_precedence_witness:
  "metadata (scrapeWebPage (table_cheerio (\<lambda>html. example_page)) (\<lambda>h. h) ''<html>''
       (Some ''https://example.com/given'') defaultOptions) =
     Some \<lparr>Metadata.title = Some ''Example'', description = Some ''About'',
           Metadata.url = Some ''https://example.com/given'', author = Some ''Ada'',
           publishDate = Some ''2024-01-02''\<rparr>"
proof -
  have "includeMetadata defaultOptions \<noteq> Some False"
    by (simp add: defaultOptions_def)
  from scrapeWebPage_metadata_precedence [OF this,
      of "table_cheerio (\<lambda>html. example_page)" "\<lambda>h. h" "''<html>''"
         "Some ''https://example.com/given''"]
  show ?thesis
    by (auto simp add: Let_def truthy_def table_cheerio_def example_page_def defaultOptions_def
        removeUnwanted_def defaultRemove_def selector_eval)
qed

section \<open>Properties of the fetch tool\<close>

text \<open>
  Claim C9, as stated, fails: a successful fetch whose extracted content is empty
  (here a page of white space) has at most 10000 characters, yet the tool does not
  return the content, neither bare nor after the heading line: it returns a notice
  that no text was extracted.
\<close>

theorem handleFetchTool_empty_content_counterexample:
  "success (fst (fetch (example_world (Resolves (JSString '' ''))) 10 20 example_fetcher
       ''https://example.com''))
   \<and> map_option content (data (fst (fetch (example_world (Resolves (JSString '' ''))) 10 20
       example_fetcher ''https://example.com''))) = Some []
   \<and> fst (handleFetchTool (example_world (Resolves (JSString '' ''))) 10 20 example_fetcher
       (JSString ''https://example.com'')) =
     Inr ''Successfully fetched content from https://example.com, but no text content was extracted.''
   \<and> fst (handleFetchTool (example_world (Resolves (JSString '' ''))) 10 20 example_fetcher
       (JSString ''https://example.com'')) \<noteq> Inr []
   \<and> fst (handleFetchTool (example_world (Resolves (JSString '' ''))) 10 20 example_fetcher
       (JSString ''https://example.com'')) \<noteq> Inr (''Content from https://example.com:'' @ [LF, LF])"
  by (simp add: handleFetchTool_def fetchToolResponse_def fetch_eval string_eval scrape_eval
      example_eval selector_eval Let_def)

text \<open>
  Claim C9, amended. For a successful fetch through the tool, with \<open>url\<close> the trimmed
  argument: when the extracted content is not empty the response text is the line
  "Content from url:" and an empty line, followed by the content itself when it has at
  most 10000 characters, and otherwise by its first 10000 characters with the
  truncation notice appended; when the content is empty the response is the notice
  that no text content was extracted.
\<close>

theorem handleFetchTool_truncates:
  assumes "arg = JSString raw" and "trim raw \<noteq> []" and "URL_parses W (trim raw)"
    and "fetch W now later f (trim raw) = (r, f', eff)"
    and "success r" and "data r = Some c"
  shows "fst (handleFetchTool W now later f arg) =
     (if content c = [] then
        Inr (''Successfully fetched content from '' @ trim raw @
             '', but no text content was extracted.'')
      else
        Inr (''Content from '' @ trim raw @ '':'' @ [LF, LF] @
             (if length (content c) > 10000
              then take 10000 (content c) @ ''...'' @ [LF, LF] @
                   ''[Content truncated - showing first 10000 characters]''
              else content c)))"
proof -
  have "raw \<noteq> []"
    using assms(2) by (auto simp add: trim_def)
  then show ?thesis
    using assms
    by (simp add: handleFetchTool_def fetchToolResponse_def falsy_def typeof_def
        maxLength_def truncationNotice_def Let_def)
qed

theorem handleFetchTool_truncates_witness:
  "fst (handleFetchTool (example_world (Resolves (JSString ''<html>''))) 10 20 example_fetcher
       (JSString '' https://example.com '')) =
     Inr (''Content from https://example.com:'' @ [LF, LF] @
          ''# Example'' @ [LF, LF] @ ''Source: https://example.com/canonical'' @ [LF, LF] @
          ''Author: Ada'' @ [LF, LF] @ ''Published: 2024-01-02'' @ [LF, LF] @
          ''About'' @ [LF, LF] @ ''---'' @ [LF, LF] @ ''Hi'' @ [LF, LF] @ ''you'')"
proof -
  let ?W = "example_world (Resolves (JSString ''<html>''))"
  let ?res = "fetch ?W 10 20 example_fetcher ''https://example.com''"
  have t: "trim '' https://example.com '' = ''https://example.com''"
    by (simp add: string_eval)
  have r: "fst ?res =
      \<lparr>success = True,
       data = Some \<lparr>content =
           ''# Example'' @ [LF, LF] @ ''Source: https://example.com/canonical'' @ [LF, LF] @
           ''Author: Ada'' @ [LF, LF] @ ''Published: 2024-01-02'' @ [LF, LF] @
           ''About'' @ [LF, LF] @ ''---'' @ [LF, LF] @ ''Hi'' @ [LF, LF] @ ''you'',
         metadata = Some \<lparr>Metadata.title = Some ''Example'', description = Some ''About'',
           Metadata.url = Some ''https://example.com/canonical'', author = Some ''Ada'',
           publishDate = Some ''2024-01-02''\<rparr>\<rparr>,
       error = None\<rparr>"
    by (simp add: fetch_eval string_eval scrape_eval example_eval selector_eval Let_def)
  have p: "URL_parses ?W ''https://example.com''"
    by (simp add: example_world_def startsWith_def)
  have e: "?res = (fst ?res, fst (snd ?res), snd (snd ?res))"
    by simp
  from handleFetchTool_truncates
         [of "JSString '' https://example.com ''" "'' https://example.com ''" ?W 10 20
             example_fetcher "fst ?res" "fst (snd ?res)" "snd (snd ?res)"
             "the (data (fst ?res))"]
  show ?thesis
    using t p e by (simp add: r)
qed

text \<open>The truncating branch on a content of 10001 characters.\<close>

lemma fetchToolResponse_long_content:
  "fetchToolResponse ''u''
     \<lparr>success = True, data = Some \<lparr>content = replicate 10001 CHR ''a'', metadata = None\<rparr>,
      error = None\<rparr> =
   Inr (''Content from u:'' @ [LF, LF] @ replicate 10000 CHR ''a'' @ ''...'' @ [LF, LF] @
        ''[Content truncated - showing first 10000 characters]'')"
  by (simp add: fetchToolResponse_def maxLength_def truncationNotice_def)

section \<open>Properties of the string operations\<close>

lemma split_LF_not_Nil: "split_LF s \<noteq> []"
  by (induction s) (auto split: list.splits)

lemma join_LF_split_LF: "join [LF] (split_LF s) = s"
proof (induction s)
  case Nil
  show ?case by simp
next
  case (Cons c cs)
  obtain l ls where ls: "split_LF cs = l # ls"
    using split_LF_not_Nil [of cs] by (cases "split_LF cs") auto
  show ?case
  proof (cases "c = LF")
    case True
    with Cons ls show ?thesis by simp
  next
    case False
    with Cons ls show ?thesis by (cases ls) auto
  qed
qed

lemma split_LF_lines_no_LF: "line \<in> set (split_LF s) \<Longrightarrow> LF \<notin> set line"
proof (induction s arbitrary: line)
  case Nil
  then show ?case by simp
next
  case (Cons c cs)
  then show ?case
    by (cases "split_LF cs") (auto split: if_splits)
qed

lemma includes_str_triple_Cons:
  "includes_str (x # s) [LF, LF, LF] =
     ((x = LF \<and> take 2 s = [LF, LF]) \<or> includes_str s [LF, LF, LF])"
  by (auto simp add: startsWith_def numeral_2_eq_2)

lemma includes_str_emit_run:
  assumes "c \<noteq> LF"
  shows "includes_str (emit_run n @ c # s) [LF, LF, LF] = includes_str s [LF, LF, LF]"
proof -
  consider "n = 0" | "n = 1" | "n = 2" | "3 \<le> n" by linarith
  then show ?thesis
    using assms
    by cases (simp_all add: emit_run_def includes_str_triple_Cons numeral_2_eq_2
        del: includes_str.simps)
qed

lemma includes_str_emit_run_only: "\<not> includes_str (emit_run n) [LF, LF, LF]"
proof -
  consider "n = 0" | "n = 1" | "n = 2" | "3 \<le> n" by linarith
  then show ?thesis
    by cases (simp_all add: emit_run_def startsWith_def numeral_2_eq_2)
qed

lemma collapse_from_no_triple: "\<not> includes_str (collapse_from n s) [LF, LF, LF]"
proof (induction s arbitrary: n)
  case Nil
  show ?case by (simp add: includes_str_emit_run_only)
next
  case (Cons c cs)
  show ?case
  proof (cases "c = LF")
    case True
    then show ?thesis using Cons [of "Suc n"] by simp
  next
    case False
    then show ?thesis using Cons [of 0] by (simp add: includes_str_emit_run del: includes_str.simps)
  qed
qed

lemma trim_decomposition:
  "\<exists>a b. s = a @ trim s @ b \<and> (\<forall>c \<in> set a. isWhiteSpace c) \<and> (\<forall>c \<in> set b. isWhiteSpace c)"
proof -
  let ?t = "dropWhile isWhiteSpace s"
  have 1: "s = takeWhile isWhiteSpace s @ ?t"
    by simp
  have "rev (dropWhile isWhiteSpace (rev ?t)) @ rev (takeWhile isWhiteSpace (rev ?t)) =
      rev (takeWhile isWhiteSpace (rev ?t) @ dropWhile isWhiteSpace (rev ?t))"
    by (simp only: rev_append)
  also have "\<dots> = ?t"
    by simp
  finally have 2: "?t = trim s @ rev (takeWhile isWhiteSpace (rev ?t))"
    by (simp add: trim_def)
  have 3: "\<forall>c \<in> set (takeWhile isWhiteSpace s). isWhiteSpace c"
    by (auto dest: set_takeWhileD)
  have 4: "\<forall>c \<in> set (rev (takeWhile isWhiteSpace (rev ?t))). isWhiteSpace c"
    by (auto dest: set_takeWhileD)
  from 1 2 have "s = takeWhile isWhiteSpace s @ trim s @ rev (takeWhile isWhiteSpace (rev ?t))"
    by simp
  with 3 4 show ?thesis by blast
qed

lemma trim_ends:
  assumes "trim s \<noteq> []"
  shows "\<not> isWhiteSpace (hd (trim s)) \<and> \<not> isWhiteSpace (last (trim s))"
proof -
  let ?t = "dropWhile isWhiteSpace s"
  let ?r = "dropWhile isWhiteSpace (rev ?t)"
  have r: "?r \<noteq> []"
    using assms by (simp add: trim_def)
  then have "\<not> isWhiteSpace (hd ?r)"
    by (rule hd_dropWhile)
  then have l: "\<not> isWhiteSpace (last (trim s))"
    using r by (simp add: trim_def last_rev)
  have t: "?t \<noteq> []"
  proof
    assume e: "?t = []"
    have "?r = []"
      by (simp only: e rev.simps dropWhile.simps)
    with r show False by (simp only: not_True_eq_False simp_thms)
  qed
  then have h: "\<not> isWhiteSpace (hd ?t)"
    by (rule hd_dropWhile)
  obtain b where "?t = trim s @ b"
    using r by (metis append_take_drop_id dropWhile_eq_drop rev_append rev_rev_ident rev_take trim_def)
  then have "hd ?t = hd (trim s)"
    using assms by (metis hd_append2)
  with h l show ?thesis by simp
qed

lemma collapse_newlines_example:
  "collapse_newlines (''a'' @ [LF, LF, LF, LF] @ ''b'' @ [LF, LF] @ ''c'' @ [LF, LF, LF]) =
     ''a'' @ [LF, LF] @ ''b'' @ [LF, LF] @ ''c'' @ [LF, LF]"
  by (simp add: collapse_newlines_def emit_run_def numeral_2_eq_2)

section \<open>Whitespace clean-up of the scraper\<close>

text \<open>
  Claim C8. With \<open>cleanWhitespace\<close> enabled (left out or \<open>true\<close>) the scraper gives what
  it gives with the option off and the Markdown of the converter post-processed: split
  at line feeds, each line trimmed, empty lines dropped, the rest joined with two line
  feeds, and every run of three or more line feeds collapsed to two. The text so
  normalised contains no three consecutive line feeds.
\<close>

theorem cleanWhitespace_normalizes_markdown:
  assumes "cleanWhitespace options \<noteq> Some False"
  shows "scrapeWebPage C T html u options =
           scrapeWebPage C
             (\<lambda>h. collapse_newlines
                    (join [LF, LF] (filter (\<lambda>line. line \<noteq> []) (map trim (split_LF (T h))))))
             html u (options\<lparr>cleanWhitespace := Some False\<rparr>)
       \<and> \<not> includes_str
             (collapse_newlines
                (join [LF, LF] (filter (\<lambda>line. line \<noteq> []) (map trim (split_LF md)))))
             [LF, LF, LF]"
proof -
  have "orDefault (cleanWhitespace options)"
    using assms by (cases "cleanWhitespace options") (simp_all add: orDefault_def)
  then show ?thesis
    by (simp add: scrapeWebPage_def Let_def cleanUpWhitespace_def orDefault_def
        collapse_newlines_def collapse_from_no_triple del: includes_str.simps)
qed

theorem cleanWhitespace_normalizes_markdown_witness:
  "content (scrapeWebPage (table_cheerio (\<lambda>html. example_page)) (\<lambda>h. h) ''<html>'' None
       (defaultOptions\<lparr>includeMetadata := Some False\<rparr>)) = ''Hi'' @ [LF, LF] @ ''you''
   \<and> content (scrapeWebPage (table_cheerio (\<lambda>html. example_page)) (\<lambda>h. h) ''<html>'' None
       (defaultOptions\<lparr>includeMetadata := Some False, cleanWhitespace := Some False\<rparr>)) =
       '' Hi '' @ [LF, LF, LF] @ ''you''"
proof -
  let ?C = "table_cheerio (\<lambda>html. example_page)"
  let ?o = "defaultOptions\<lparr>includeMetadata := Some False\<rparr>"
  have "cleanWhitespace ?o \<noteq> Some False"
    by (simp add: defaultOptions_def)
  from cleanWhitespace_normalizes_markdown [OF this, of ?C "\<lambda>h. h" "''<html>''" None "[]"]
  have eq: "scrapeWebPage ?C (\<lambda>h. h) ''<html>'' None ?o =
      scrapeWebPage ?C
        (\<lambda>h. collapse_newlines
               (join [LF, LF] (filter (\<lambda>line. line \<noteq> []) (map trim (split_LF h)))))
        ''<html>'' None (?o\<lparr>cleanWhitespace := Some False\<rparr>)"
    by blast
  have val: "content (scrapeWebPage ?C
        (\<lambda>h. collapse_newlines
               (join [LF, LF] (filter (\<lambda>line. line \<noteq> []) (map trim (split_LF h)))))
        ''<html>'' None (?o\<lparr>cleanWhitespace := Some False\<rparr>)) = ''Hi'' @ [LF, LF] @ ''you''"
    by (simp add: scrape_eval string_eval example_eval selector_eval Let_def)
  have off: "content (scrapeWebPage ?C (\<lambda>h. h) ''<html>'' None (?o\<lparr>cleanWhitespace := Some False\<rparr>)) =
      '' Hi '' @ [LF, LF, LF] @ ''you''"
    by (simp add: scrape_eval string_eval example_eval selector_eval Let_def)
  show ?thesis
    using eq val off by simp
qed

section \<open>Properties of the search\<close>

lemma processElement_kept:
  "r \<in> set (processElement el) \<Longrightarrow> keepResult (SearchResult.title r) (SearchResult.url r)"
  by (auto simp add: processElement_def Let_def split: option.splits if_splits)

lemma extractLoop_kept:
  assumes "\<forall>r \<in> set acc. keepResult (SearchResult.title r) (SearchResult.url r)"
  shows "\<forall>r \<in> set (extractLoop doc sels acc).
           keepResult (SearchResult.title r) (SearchResult.url r)"
  using assms
proof (induction sels arbitrary: acc)
  case Nil
  then show ?case by simp
next
  case (Cons sel sels)
  let ?acc' = "acc @ concat (map processElement (querySelectorAll doc sel))"
  have kept: "\<forall>r \<in> set ?acc'. keepResult (SearchResult.title r) (SearchResult.url r)"
    using Cons.prems by (auto dest: processElement_kept)
  show ?case
  proof (cases "querySelectorAll doc sel = []")
    case True
    then show ?thesis using Cons.IH [OF Cons.prems] by simp
  next
    case False
    show ?thesis
    proof (cases "?acc' = []")
      case True
      with False show ?thesis using Cons.IH [OF kept] by (simp add: Let_def)
    next
      case nonempty: False
      with False show ?thesis using kept by (simp add: Let_def)
    qed
  qed
qed

lemma extractResults_kept:
  "r \<in> set (extractResults doc) \<Longrightarrow> keepResult (SearchResult.title r) (SearchResult.url r)"
  using extractLoop_kept [of "[]" doc resultSelectors] by (simp add: extractResults_def)

lemma resultOf_andThen:
  assumes "\<And>a. snd m = Inl a \<Longrightarrow> \<forall>x \<in> set (resultOf (Inl a)). P x"
    and "\<And>v. \<forall>x \<in> set (resultOf (snd (k v))). P x"
  shows "\<forall>x \<in> set (resultOf (snd (andThen m k))). P x"
proof (cases m)
  case (Pair l r)
  show ?thesis
  proof (cases r)
    case (Inl a)
    with Pair assms(1) [of a] show ?thesis by (simp add: andThen_def)
  next
    case (Inr v)
    with Pair assms(2) [of v] show ?thesis by (simp add: andThen_def split: prod.splits)
  qed
qed

lemma resultOf_perform: "snd (perform a r) = Inl b \<Longrightarrow> \<forall>x \<in> set (resultOf (Inl b)). P x"
  by (auto simp add: perform_def resultOf_def split: outcome.splits)

lemma resultOf_probe:
  "snd (case probeSelectors W sels of (l, found) \<Rightarrow> (l, Inr found)) = Inl b
     \<Longrightarrow> \<forall>x \<in> set (resultOf (Inl b)). P x"
  by (simp split: prod.splits)

lemma resultOf_captchaStep:
  "snd (captchaStep W h c) = Inl b \<Longrightarrow> \<forall>x \<in> set (resultOf (Inl b)). P x"
  by (auto simp add: captchaStep_def perform_def resultOf_def split: if_splits outcome.splits)

lemma submitAndExtract_kept:
  "\<forall>x \<in> set (resultOf (snd (submitAndExtract W q))).
     keepResult (SearchResult.title x) (SearchResult.url x)"
  unfolding submitAndExtract_def
  apply (rule resultOf_andThen, erule resultOf_perform)+
  apply (rule resultOf_andThen, erule resultOf_probe)
  apply (rule resultOf_andThen, erule resultOf_perform)
  apply (simp add: resultOf_def extractResults_kept)
  done

lemma pageScript_kept:
  "\<forall>x \<in> set (resultOf (snd (pageScript W h q))).
     keepResult (SearchResult.title x) (SearchResult.url x)"
  unfolding pageScript_def
  apply (rule resultOf_andThen, erule resultOf_perform)+
  apply (rule resultOf_andThen, erule resultOf_captchaStep)
  apply (rule submitAndExtract_kept)
  done

lemma search_kept:
  "\<forall>x \<in> set (fst (search W now later ws q)).
     keepResult (SearchResult.title x) (SearchResult.url x)"
proof -
  have "keepResult (SearchResult.title x) (SearchResult.url x)"
    if "pageScript W h q = (l, r)" and "x \<in> set (resultOf r)" for h l r x
    using pageScript_kept [of W h q] that by simp
  then show ?thesis
    by (auto simp add: search_def Let_def split: prod.splits outcome.splits option.splits)
qed

text \<open>
  Claim C2, as stated, fails: the test on the URL is \<open>startsWith("http")\<close>, which a
  scheme such as \<open>httpx:\<close> passes. On a result page whose third entry links to
  \<open>httpx://example.org/\<close> the search returns that URL, which begins neither with
  \<open>http://\<close> nor with \<open>https://\<close>.
\<close>

theorem search_non_http_scheme_counterexample:
  "map SearchResult.url
     (fst (search (example_browser False (Resolves ()) example_results) 0 0
        (new_WebSearcher True 0) ''q'')) = [''https://example.com/'', ''httpx://example.org/'']
   \<and> \<not> startsWith ''httpx://example.org/'' ''http://''
   \<and> \<not> startsWith ''httpx://example.org/'' ''https://''"
  by (simp add: search_eval extract_eval string_eval Let_def)

text \<open>
  Claim C2, amended. Every result that \<open>search\<close> returns has a non-empty title and a
  non-empty URL that starts with the characters \<open>http\<close>, and its URL contains none of
  \<open>duckduckgo.com/y.js\<close>, \<open>duckduckgo.com/l/?uddg=\<close> and \<open>javascript:\<close>: an entry whose
  normalised URL fails one of these tests is not included.
\<close>

theorem search_results_pass_filter:
  "\<forall>r \<in> set (fst (search W now later ws q)).
     SearchResult.url r \<noteq> [] \<and> startsWith (SearchResult.url r) ''http''
     \<and> \<not> includes_str (SearchResult.url r) ''duckduckgo.com/y.js''
     \<and> \<not> includes_str (SearchResult.url r) ''duckduckgo.com/l/?uddg=''
     \<and> \<not> includes_str (SearchResult.url r) ''javascript:''
     \<and> SearchResult.title r \<noteq> []"
  using search_kept [of W now later ws q] by (auto simp add: keepResult_def)

theorem search_results_pass_filter_witness:
  "fst (search (example_browser False (Resolves ()) example_results) 0 0
        (new_WebSearcher True 0) ''q'') \<noteq> []
   \<and> list_all
        (\<lambda>r. SearchResult.url r \<noteq> [] \<and> startsWith (SearchResult.url r) ''http''
           \<and> \<not> includes_str (SearchResult.url r) ''duckduckgo.com/y.js''
           \<and> \<not> includes_str (SearchResult.url r) ''duckduckgo.com/l/?uddg=''
           \<and> \<not> includes_str (SearchResult.url r) ''javascript:''
           \<and> SearchResult.title r \<noteq> [])
        (fst (search (example_browser False (Resolves ()) example_results) 0 0
           (new_WebSearcher True 0) ''q''))"
proof -
  have ne: "fst (search (example_browser False (Resolves ()) example_results) 0 0
        (new_WebSearcher True 0) ''q'') \<noteq> []"
    by (simp add: search_eval extract_eval string_eval Let_def)
  have all: "list_all
        (\<lambda>r. SearchResult.url r \<noteq> [] \<and> startsWith (SearchResult.url r) ''http''
           \<and> \<not> includes_str (SearchResult.url r) ''duckduckgo.com/y.js''
           \<and> \<not> includes_str (SearchResult.url r) ''duckduckgo.com/l/?uddg=''
           \<and> \<not> includes_str (SearchResult.url r) ''javascript:''
           \<and> SearchResult.title r \<noteq> [])
        (fst (search (example_browser False (Resolves ()) example_results) 0 0
           (new_WebSearcher True 0) ''q''))"
    using search_results_pass_filter
            [of "example_browser False (Resolves ()) example_results" 0 0
                "new_WebSearcher True 0" "''q''"]
    by (simp only: list_all_iff)
  from ne all show ?thesis by (rule conjI)
qed

section \<open>The captcha step\<close>

text \<open>
  In headless mode a captcha element ends the search with the empty list, whatever the
  other calls give.
\<close>

lemma search_headless_captcha_returns_empty:
  assumes "headless ws" and "query W captchaSelector = Resolves True"
  shows "fst (search W now later ws q) = []"
proof -
  have h: "headless (fst (initBrowser W ws')) = headless ws'" for ws'
    by (simp add: initBrowser_def split: outcome.splits)
  have p: "resultOf (snd (pageScript W True q)) = []"
    using assms(2)
    by (simp add: pageScript_def captchaStep_def andThen_def perform_def resultOf_def
        split: outcome.splits)
  have "resultOf r = []"
    if "initBrowser W (ws\<lparr>WebSearcher.rateLimiter := rl\<rparr>) = (ws2, a, f)"
      and "pageScript W (headless ws2) q = (l, r)" for rl ws2 a f l r
  proof -
    have "headless ws2"
      using h [of "ws\<lparr>WebSearcher.rateLimiter := rl\<rparr>"] that(1) assms(1) by simp
    with that(2) p show ?thesis by simp
  qed
  then show ?thesis
    by (auto simp add: search_def Let_def split: prod.splits outcome.splits option.splits)
qed

text \<open>
  Claim C6 on the code, for a searcher that is not headless and a page with a captcha
  element. The wait issued is \<open>waitForFunction\<close> on a function that is constantly true,
  with a timeout of 10000 ms; no call waits for the captcha element to go away. When
  that wait rejects, the search ends with the empty list: after it only the page is
  closed, and the query is never typed, although the page holds results. When the wait
  resolves, the search goes on to the search box.
\<close>

theorem search_captcha_not_headless:
  "search (example_browser True (Rejects (Error ''Waiting failed: 10000ms exceeded'')) example_results)
       0 0 (new_WebSearcher False 0) ''q'' =
     ([],
      \<lparr>WebSearcher.rateLimiter =
         \<lparr>requests = 1, limit = 1, interval = 2000, lastRequestTime = 0\<rparr>,
       baseUrl = ''https://html.duckduckgo.com'', browser = Some 0, headless = False\<rparr>,
      [Launch False, NewPage, SetUserAgent userAgent, SetViewport 1366 768,
       Goto ''https://duckduckgo.com'' 30000, Query captchaSelector, WaitForFunction 10000,
       ClosePage])
   \<and> snd (snd (search (example_browser True (Resolves ()) example_results)
       0 0 (new_WebSearcher False 0) ''q'')) =
      [Launch False, NewPage, SetUserAgent userAgent, SetViewport 1366 768,
       Goto ''https://duckduckgo.com'' 30000, Query captchaSelector, WaitForFunction 10000,
       WaitForSelector searchBoxSelector 5000, TypeText searchBoxSelector ''q'',
       Click submitButton, WaitForNavigation 30000, WaitForSelector ''.result'' 5000,
       Evaluate, ClosePage]"
  by (simp add: search_eval string_eval Let_def)

section \<open>Concurrent initialisation of the browser\<close>

text \<open>
  One caller alone, resumed twice, does what \<open>initBrowser\<close> does when the launch
  resolves with a handle.
\<close>

lemma resume_alone_is_initBrowser:
  assumes "launch W = Resolves (Some n)"
  shows "handle (run_schedule [0, 0] \<lparr>handle = browser ws, launches = n, callers = [Entering]\<rparr>)
           = browser (fst (initBrowser W ws))
       \<and> launches (run_schedule [0, 0] \<lparr>handle = browser ws, launches = n, callers = [Entering]\<rparr>)
           = n + length (fst (snd (initBrowser W ws)))"
  using assms by (cases "browser ws") (simp_all add: run_schedule_def resume_def initBrowser_def)

text \<open>
  With the rate limiter of a searcher (one request per 2000 ms), the second of two
  calls made at the same time waits a whole interval before it reaches \<open>initBrowser\<close>:
  it overlaps the launch of the first when that launch takes longer.
\<close>

lemma second_caller_waits_interval:
  "fst (acquire 0 later'
          (snd (acquire 0 later (WebSearcher.rateLimiter (new_WebSearcher h 0))))) = Some 2000"
  by (simp add: acquire_def new_WebSearcher_def)

text \<open>
  Claim C7 on the code. Two callers on a fresh searcher: when the second enters
  \<open>initBrowser\<close> while the launch of the first is still pending, it finds no handle and
  launches a second browser (the handle of the first is then overwritten). When the
  first caller is past \<open>initBrowser\<close> before the second enters, there is one launch.
\<close>

theorem concurrent_initBrowser_launches_twice:
  "run_schedule [0, 1, 0, 1] (fresh 2) = \<lparr>handle = Some 1, launches = 2, callers = [Past, Past]\<rparr>
   \<and> run_schedule [0, 0, 1] (fresh 2) = \<lparr>handle = Some 0, launches = 1, callers = [Past, Past]\<rparr>"
  by (simp add: run_schedule_def resume_def fresh_def numeral_2_eq_2)

end
